theory Spec2Isabelle
  imports Complex_Main
begin

section \<open>JavaScript values\<close>

text \<open>
  The grid holds rows of type \<^verbatim>\<open>any\<close>. A row is a plain data object: its own enumerable
  keys in enumeration order, each with a value. Key order matters (\<^verbatim>\<open>for..in\<close>,
  \<^verbatim>\<open>_.keys(o)[0]\<close>), so an object is an association list. An array is the object of its
  indices. Values are finite trees: an object that contains itself is outside the model,
  as are the non-finite and fractional doubles: numbers are the integers.
\<close>

datatype jsval =
    JUndefined
  | JNull
  | JBool bool
  | JNum int
  | JStr string
  | JObj "(string \<times> jsval) list"

type_synonym row = "(string \<times> jsval) list"

text \<open>lodash \<^verbatim>\<open>_.isObject\<close>: true of objects and arrays, false of primitives and null.\<close>

fun isObject :: "jsval \<Rightarrow> bool" where
  "isObject (JObj kvs) = True"
| "isObject v = False"

text \<open>The truthiness test of \<^verbatim>\<open>if (v)\<close>.\<close>

fun truthy :: "jsval \<Rightarrow> bool" where
  "truthy JUndefined = False"
| "truthy JNull = False"
| "truthy (JBool b) = b"
| "truthy (JNum n) = (n \<noteq> 0)"
| "truthy (JStr s) = (s \<noteq> [])"
| "truthy (JObj kvs) = True"

text \<open>Property read \<^verbatim>\<open>row[key]\<close>: a missing key reads as \<^verbatim>\<open>undefined\<close>.\<close>

definition getProp :: "row \<Rightarrow> string \<Rightarrow> jsval" where
  "getProp r k = (case map_of r k of None \<Rightarrow> JUndefined | Some v \<Rightarrow> v)"

text \<open>
  The string that \<^verbatim>\<open>String.prototype.concat\<close> appends for an argument that may be
  \<^verbatim>\<open>undefined\<close>.
\<close>

definition concatArg :: "string option \<Rightarrow> string" where
  "concatArg a = (case a of None \<Rightarrow> ''undefined'' | Some s \<Rightarrow> s)"

text \<open>\<^verbatim>\<open>Math.floor\<close> and \<^verbatim>\<open>Math.ceil\<close> on a quotient of integers.\<close>

definition Math_floor :: "real \<Rightarrow> int" where
  "Math_floor x = \<lfloor>x\<rfloor>"

definition Math_ceil :: "real \<Rightarrow> int" where
  "Math_ceil x = \<lceil>x\<rceil>"

datatype js_error = TypeError

section \<open>Collaborators of the grid\<close>

text \<open>
  Modelled from the spec: \<^verbatim>\<open>GridColumn\<close> (grid-column.ts) is not part of the sources.
  The spec's ColumnSpec has a name (a dotted path for nested fields) and a heading;
  \<^verbatim>\<open>new GridColumn({name: n, heading: h})\<close> is the record with these two fields.
\<close>

record GridColumn =
  name :: string
  heading :: string

text \<open>
  The options the grid reads (grid-options.ts is not part of the sources): the
  configured columns (empty when none are given), the remote url if any, the paging
  switch and the maximal number of page buttons.
\<close>

record GridOptions =
  opt_columns :: "GridColumn list"
  opt_url :: "string option"
  opt_paging :: bool
  opt_pageButtonCount :: int

text \<open>
  The data provider (grid-data-provider.ts is not part of the sources). The grid reads
  and writes its fields \<^verbatim>\<open>pageSize\<close> (a number, or \<^verbatim>\<open>false\<close> when paging by size is
  off: \<open>None\<close>) and \<^verbatim>\<open>page\<close>; everything else the provider holds is \<open>internals\<close>,
  of a type the grid never looks into.
\<close>

record 'p GridDataProvider =
  pageSize :: "int option"
  page :: int
  internals :: 'p

text \<open>
  The provider's methods are parameters of the model: whatever grid-data-provider.ts
  does, the grid only calls it. \<open>dp_fetch\<close> returns the provider after the request
  and the error handed to the subscription's error callback, if the request failed;
  the response arrives before anything else happens to the grid (the spec asks callers
  to serialise renders).
\<close>

record 'p provider_ops =
  dp_getData :: "'p GridDataProvider \<Rightarrow> row list"
  dp_getTotalCount :: "'p GridDataProvider \<Rightarrow> int"
  dp_setFilter :: "string \<Rightarrow> string \<Rightarrow> 'p GridDataProvider \<Rightarrow> 'p GridDataProvider"
  dp_setSort :: "string \<Rightarrow> string option \<Rightarrow> 'p GridDataProvider \<Rightarrow> 'p GridDataProvider"
  dp_getSortColumn :: "'p GridDataProvider \<Rightarrow> string option"
  dp_getSortType :: "'p GridDataProvider \<Rightarrow> string"
  dp_fetch :: "'p GridDataProvider \<Rightarrow> string option \<times> 'p GridDataProvider"

text \<open>
  Modelled from the spec: \<^verbatim>\<open>GridSort\<close> (grid-sort.ts) is not part of the sources. The
  spec's sort direction is ASC or DESC; the doc comment of \<^verbatim>\<open>setSort\<close> in grid.ts gives
  the two strings.
\<close>

definition TYPE_ASC :: string where
  "TYPE_ASC = ''asc''"

definition TYPE_DESC :: string where
  "TYPE_DESC = ''desc''"

section \<open>The grid\<close>

text \<open>
  The fields of class \<^verbatim>\<open>Grid\<close>. \<^verbatim>\<open>data\<close> and \<^verbatim>\<open>pages\<close> are declared without a value:
  they are \<^verbatim>\<open>undefined\<close> (\<open>None\<close>) until the first refresh. \<open>console\<close> is the text
  written by \<^verbatim>\<open>console.log\<close> so far, and \<open>requests\<close> counts the calls of
  \<^verbatim>\<open>dataProvider.fetch()\<close> the grid has made.
\<close>

record 'p Grid =
  options :: GridOptions
  columns :: "GridColumn list"
  dataProvider :: "'p GridDataProvider"
  data :: "row list option"
  pageIndex :: int
  pages :: "int list option"
  console :: "string list"
  requests :: nat

subsection \<open>Reading the state\<close>

text \<open>
  A method that only reads is a pair of its result and the grid it leaves, which is the
  grid it was called on.
\<close>

definition getData :: "'p Grid \<Rightarrow> row list option \<times> 'p Grid" where
  "getData g = (data g, g)"

fun selectedLoop :: "row list \<Rightarrow> row list \<Rightarrow> row list" where
  "selectedLoop [] selectedItems = selectedItems"
| "selectedLoop (r # rest) selectedItems =
     selectedLoop rest
       (if truthy (getProp r ''selected'') then selectedItems @ [r] else selectedItems)"

text \<open>Iterating over \<^verbatim>\<open>undefined\<close> data throws.\<close>

definition getSelectedItems :: "'p Grid \<Rightarrow> (js_error + row list) \<times> 'p Grid" where
  "getSelectedItems g =
     (case data g of
        None \<Rightarrow> (Inl TypeError, g)
      | Some d \<Rightarrow> (Inr (selectedLoop d []), g))"

definition getPageIndex :: "'p Grid \<Rightarrow> int" where
  "getPageIndex g = pageIndex g"

definition getPageSize :: "'p Grid \<Rightarrow> int option" where
  "getPageSize g = pageSize (dataProvider g)"

text \<open>
  \<^verbatim>\<open>Math.ceil(totalCount / pageSize)\<close>, the division being that of the reals. A page
  size of 0 gives a non-finite double in the source and is outside the model.
\<close>

definition getTotalPages :: "'p provider_ops \<Rightarrow> 'p Grid \<Rightarrow> int" where
  "getTotalPages ops g =
     (case pageSize (dataProvider g) of
        None \<Rightarrow> 1
      | Some n \<Rightarrow>
          Math_ceil (real_of_int (dp_getTotalCount ops (dataProvider g)) / real_of_int n))"

subsection \<open>Setters\<close>

definition setPageIndex :: "int \<Rightarrow> 'p Grid \<Rightarrow> 'p Grid" where
  "setPageIndex i g = g\<lparr>pageIndex := i\<rparr>"

definition setPageSize :: "int \<Rightarrow> 'p Grid \<Rightarrow> 'p Grid" where
  "setPageSize n g = g\<lparr>dataProvider := (dataProvider g)\<lparr>pageSize := Some n\<rparr>, pageIndex := 1\<rparr>"

definition setFilter :: "'p provider_ops \<Rightarrow> string \<Rightarrow> string \<Rightarrow> 'p Grid \<Rightarrow> 'p Grid" where
  "setFilter ops columnName v g =
     g\<lparr>dataProvider := dp_setFilter ops columnName v (dataProvider g), pageIndex := 1\<rparr>"

definition setSort :: "'p provider_ops \<Rightarrow> string \<Rightarrow> string option \<Rightarrow> 'p Grid \<Rightarrow> 'p Grid" where
  "setSort ops sortColumn sortType g =
     g\<lparr>dataProvider := dp_setSort ops sortColumn sortType (dataProvider g)\<rparr>"

subsection \<open>Column inference\<close>

text \<open>
  \<^verbatim>\<open>getNestedKey\<close>: the first key of the object, \<^verbatim>\<open>undefined\<close> when it has none. When
  the first value is an object the source builds the longer path with \<^verbatim>\<open>concat\<close> and
  drops it (\<^verbatim>\<open>concat\<close> returns a new string, the statement has no effect), then
  returns the first key alone. It is only called on objects; \<^verbatim>\<open>_.keys\<close> of a primitive
  is empty.
\<close>

fun getNestedKey :: "jsval \<Rightarrow> string option" where
  "getNestedKey (JObj ((firstKey, firstKeyValue) # rest)) =
     (if isObject firstKeyValue
      then (let dropped = firstKey @ ''.'' @ concatArg (getNestedKey firstKeyValue)
            in Some firstKey)
      else Some firstKey)"
| "getNestedKey v = None"

definition getColumnName :: "string \<Rightarrow> row \<Rightarrow> string" where
  "getColumnName key r =
     (if isObject (getProp r key)
      then key @ ''.'' @ concatArg (getNestedKey (getProp r key))
      else key)"

text \<open>The \<^verbatim>\<open>for (let key in firstRow)\<close> loop, pushing one column for each key.\<close>

fun pushColumns :: "string list \<Rightarrow> row \<Rightarrow> GridColumn list \<Rightarrow> GridColumn list" where
  "pushColumns [] firstRow cols = cols"
| "pushColumns (key # ks) firstRow cols =
     pushColumns ks firstRow
       (cols @ [\<lparr>name = getColumnName key firstRow, heading = key\<rparr>])"

text \<open>\<^verbatim>\<open>data[0]\<close> of an empty list is \<^verbatim>\<open>undefined\<close>, over which \<^verbatim>\<open>for..in\<close> does not iterate.\<close>

definition setColumnsFromData :: "row list \<Rightarrow> 'p Grid \<Rightarrow> 'p Grid" where
  "setColumnsFromData d g =
     (case d of
        [] \<Rightarrow> g
      | firstRow # rest \<Rightarrow> g\<lparr>columns := pushColumns (map fst firstRow) firstRow (columns g)\<rparr>)"

text \<open>
  The options hold the configured columns as columns already: \<^verbatim>\<open>new GridColumn(value)\<close>
  of a configured value is that value's name and heading.
\<close>

definition initColumns :: "'p Grid \<Rightarrow> 'p Grid" where
  "initColumns g =
     (if opt_columns (options g) \<noteq> []
      then g\<lparr>columns := columns g @ opt_columns (options g)\<rparr>
      else g)"

subsection \<open>Pagination\<close>

text \<open>The loop \<^verbatim>\<open>for (i = startIndex; i <= endIndex; i++) pages.push(i)\<close>.\<close>

function pushPages :: "int \<Rightarrow> int \<Rightarrow> int list \<Rightarrow> int list" where
  "pushPages i endIndex acc =
     (if i \<le> endIndex then pushPages (i + 1) endIndex (acc @ [i]) else acc)"
  by pat_completeness auto
termination
  by (relation "measure (\<lambda>(i, endIndex, acc). nat (endIndex + 1 - i))") auto

definition paginate :: "'p provider_ops \<Rightarrow> 'p Grid \<Rightarrow> 'p Grid" where
  "paginate ops g =
     (let pageButtonCount = min (opt_pageButtonCount (options g)) (getTotalPages ops g);
          offsetLeft = Math_floor (real_of_int pageButtonCount / 2);
          offsetRight = Math_ceil (real_of_int pageButtonCount / 2) - 1;
          startIndex = pageIndex g - offsetLeft;
          endIndex = pageIndex g + offsetRight;
          (startIndex, endIndex) =
            (if startIndex < 1 then (1, pageButtonCount)
             else if endIndex > getTotalPages ops g
             then (getTotalPages ops g - pageButtonCount + 1, getTotalPages ops g)
             else (startIndex, endIndex))
      in g\<lparr>pages := Some (pushPages startIndex endIndex [])\<rparr>)"

subsection \<open>Rendering\<close>

definition refresh :: "'p provider_ops \<Rightarrow> 'p Grid \<Rightarrow> 'p Grid" where
  "refresh ops g =
     (let d = dp_getData ops (dataProvider g);
          g1 = g\<lparr>data := Some d\<rparr>;
          g2 = (if d \<noteq> [] \<and> columns g1 = [] then setColumnsFromData d g1 else g1)
      in if opt_paging (options g2) then paginate ops g2 else g2)"

text \<open>
  \<^verbatim>\<open>render\<close>: without a url the grid refreshes at once; with one it calls \<^verbatim>\<open>fetch()\<close>
  once and subscribes: the success callback refreshes, the error callback only logs.
\<close>

definition render :: "'p provider_ops \<Rightarrow> 'p Grid \<Rightarrow> 'p Grid" where
  "render ops g =
     (let g1 = g\<lparr>dataProvider := (dataProvider g)\<lparr>page := pageIndex g\<rparr>\<rparr>
      in if opt_url (options g1) = None then refresh ops g1
         else (case dp_fetch ops (dataProvider g1) of
                 (None, p) \<Rightarrow> refresh ops (g1\<lparr>dataProvider := p, requests := Suc (requests g1)\<rparr>)
               | (Some err, p) \<Rightarrow>
                   g1\<lparr>dataProvider := p, requests := Suc (requests g1),
                      console := console g1 @ [err]\<rparr>))"

subsection \<open>Sorting\<close>

text \<open>A column name is a string, so it differs from an \<^verbatim>\<open>undefined\<close> sort column.\<close>

definition getSortType :: "'p provider_ops \<Rightarrow> 'p Grid \<Rightarrow> GridColumn \<Rightarrow> string" where
  "getSortType ops g column =
     (if Some (name column) \<noteq> dp_getSortColumn ops (dataProvider g)
      then dp_getSortType ops (dataProvider g)
      else (if dp_getSortType ops (dataProvider g) = TYPE_ASC then TYPE_DESC else TYPE_ASC))"

subsection \<open>The public methods as transitions\<close>

text \<open>
  The public methods of the grid that change its state, as values, so that a lifetime of
  the grid is a list of calls.
\<close>

datatype api_call =
    SetPageIndex int
  | SetPageSize int
  | SetFilter string string
  | SetSort string "string option"
  | Render

fun call :: "'p provider_ops \<Rightarrow> api_call \<Rightarrow> 'p Grid \<Rightarrow> 'p Grid" where
  "call ops (SetPageIndex i) g = setPageIndex i g"
| "call ops (SetPageSize n) g = setPageSize n g"
| "call ops (SetFilter columnName v) g = setFilter ops columnName v g"
| "call ops (SetSort sortColumn sortType) g = setSort ops sortColumn sortType g"
| "call ops Render g = render ops g"

section \<open>An in-memory provider\<close>

text \<open>
  A provider on which the model runs: it holds all rows, its sort state, its filters and
  the error its next request fails with, if it is to fail. It stands for no code of the
  repository; the properties below hold for every provider.
\<close>

record mem_provider =
  mem_rows :: "row list"
  mem_sortColumn :: "string option"
  mem_sortType :: string
  mem_filters :: "(string \<times> string) list"
  mem_error :: "string option"

definition mem_ops :: "mem_provider provider_ops" where
  "mem_ops =
     \<lparr>dp_getData = (\<lambda>p. mem_rows (internals p)),
      dp_getTotalCount = (\<lambda>p. int (length (mem_rows (internals p)))),
      dp_setFilter = (\<lambda>c v p.
        p\<lparr>internals := (internals p)\<lparr>mem_filters := (c, v) # mem_filters (internals p)\<rparr>\<rparr>),
      dp_setSort = (\<lambda>c t p.
        p\<lparr>internals := (internals p)
          \<lparr>mem_sortColumn := Some c,
           mem_sortType := (case t of None \<Rightarrow> mem_sortType (internals p) | Some s \<Rightarrow> s)\<rparr>\<rparr>),
      dp_getSortColumn = (\<lambda>p. mem_sortColumn (internals p)),
      dp_getSortType = (\<lambda>p. mem_sortType (internals p)),
      dp_fetch = (\<lambda>p. (mem_error (internals p), p))\<rparr>"

text \<open>
  A freshly constructed grid over the given rows, with page size \<open>n\<close>, page index \<open>i\<close>
  and \<open>bc\<close> page buttons: no columns configured, no url, paging on.
\<close>

definition mem_grid :: "row list \<Rightarrow> int option \<Rightarrow> int \<Rightarrow> int \<Rightarrow> mem_provider Grid" where
  "mem_grid rows n i bc =
     \<lparr>options = \<lparr>opt_columns = [], opt_url = None, opt_paging = True,
                  opt_pageButtonCount = bc\<rparr>,
      columns = [],
      dataProvider = \<lparr>pageSize = n, page = 1,
        internals = \<lparr>mem_rows = rows, mem_sortColumn = None, mem_sortType = ''asc'',
                     mem_filters = [], mem_error = None\<rparr>\<rparr>,
      data = None, pageIndex = i, pages = None, console = [], requests = 0\<rparr>"

section \<open>The nested key as documented\<close>

text \<open>
  The path that the doc comment of \<^verbatim>\<open>getNestedKey\<close> and the spec's column inference
  describe: descend through the first key of each nested object and join the keys with
  dots, down to the first value that is not an object. It differs from \<open>getNestedKey\<close>
  in keeping the result of the recursive call.
\<close>

fun getNestedKey_spec :: "jsval \<Rightarrow> string option" where
  "getNestedKey_spec (JObj ((firstKey, firstKeyValue) # rest)) =
     (if isObject firstKeyValue
      then Some (firstKey @ ''.'' @ concatArg (getNestedKey_spec firstKeyValue))
      else Some firstKey)"
| "getNestedKey_spec v = None"

text \<open>The row of the example in the doc comment of \<^verbatim>\<open>getNestedKey\<close>.\<close>

definition china_row :: row where
  "china_row =
     [(''country'',
       JObj [(''name'', JObj [(''officialName'', JStr ''Peoples Republic of China''),
                             (''name'', JStr ''China'')]),
             (''id'', JNum 6)])]"

section \<open>Auxiliary facts\<close>

lemma Math_floor_half: "Math_floor (real_of_int n / 2) = n div 2"
  unfolding Math_floor_def by (metis floor_divide_of_int_eq of_int_numeral)

lemma Math_ceil_half: "Math_ceil (real_of_int n / 2) = (n + 1) div 2"
proof -
  have "\<lceil>real_of_int n / real_of_int 2\<rceil> = - (- n div 2)"
    by (rule ceiling_divide_eq_div)
  then show ?thesis unfolding Math_ceil_def by simp
qed

lemma Math_ceil_quotient: "Math_ceil (real_of_int a / real_of_int b) = - (- a div b)"
  unfolding Math_ceil_def by (rule ceiling_divide_eq_div)

lemma getTotalPages_div:
  "getTotalPages ops g =
     (case pageSize (dataProvider g) of
        None \<Rightarrow> 1
      | Some n \<Rightarrow> - (- dp_getTotalCount ops (dataProvider g) div n))"
  by (simp add: getTotalPages_def Math_ceil_quotient split: option.splits)

lemma getTotalPages_setPageIndex:
  "getTotalPages ops (setPageIndex i g) = getTotalPages ops g"
  by (simp add: getTotalPages_def setPageIndex_def split: option.splits)

lemma pushPages_upto: "pushPages i e acc = acc @ [i..e]"
proof (induction i e acc rule: pushPages.induct)
  case (1 i endIndex acc)
  show ?case
  proof (cases "i \<le> endIndex")
    case True
    then have "pushPages i endIndex acc = pushPages (i + 1) endIndex (acc @ [i])"
      by (subst pushPages.simps) simp
    also have "\<dots> = (acc @ [i]) @ [i + 1..endIndex]"
      using "1.IH" True by simp
    also have "\<dots> = acc @ [i..endIndex]"
      using True by (simp add: upto_rec1)
    finally show ?thesis .
  next
    case False
    then show ?thesis by (subst pushPages.simps) simp
  qed
qed

text \<open>The window of \<open>paginate\<close> in integer arithmetic.\<close>

lemma paginate_pages:
  assumes "getTotalPages ops g = tp" "pageIndex g = p" "opt_pageButtonCount (options g) = ws"
  shows "pages (paginate ops g) = Some (
      if p - min ws tp div 2 < 1 then [1..min ws tp]
      else if p + ((min ws tp + 1) div 2 - 1) > tp then [tp - min ws tp + 1..tp]
      else [p - min ws tp div 2..p + ((min ws tp + 1) div 2 - 1)])"
  unfolding paginate_def Let_def Math_floor_half Math_ceil_half pushPages_upto assms
  by (simp split: if_splits)

lemma selectedLoop_filter:
  "selectedLoop d acc = acc @ filter (\<lambda>r. truthy (getProp r ''selected'')) d"
  by (induction d arbitrary: acc) simp_all

lemma pushColumns_map:
  "pushColumns ks r cols =
     cols @ map (\<lambda>key. \<lparr>name = getColumnName key r, heading = key\<rparr>) ks"
  by (induction ks arbitrary: cols) simp_all

text \<open>What each step of a render does to the columns.\<close>

lemma columns_paginate: "columns (paginate ops g) = columns g"
  by (simp add: paginate_def Let_def split: prod.splits)

lemma columns_refresh:
  "columns (refresh ops g) =
     (if dp_getData ops (dataProvider g) \<noteq> [] \<and> columns g = []
      then columns (setColumnsFromData (dp_getData ops (dataProvider g)) g)
      else columns g)"
  by (simp add: refresh_def Let_def columns_paginate setColumnsFromData_def split: list.splits)

lemma columns_refresh_nonempty: "columns g \<noteq> [] \<Longrightarrow> columns (refresh ops g) = columns g"
  by (simp add: columns_refresh)

lemma columns_render_nonempty: "columns g \<noteq> [] \<Longrightarrow> columns (render ops g) = columns g"
  by (simp add: render_def Let_def columns_refresh_nonempty split: prod.splits option.splits)

lemma columns_call_nonempty: "columns g \<noteq> [] \<Longrightarrow> columns (call ops c g) = columns g"
  by (cases c)
    (simp_all add: setPageIndex_def setPageSize_def setFilter_def setSort_def
      columns_render_nonempty)

lemma columns_fold_call_nonempty:
  "columns g \<noteq> [] \<Longrightarrow> columns (fold (call ops) cs g) = columns g"
proof (induction cs arbitrary: g)
  case Nil
  show ?case by simp
next
  case (Cons c cs)
  from Cons.prems have "columns (call ops c g) = columns g"
    by (rule columns_call_nonempty)
  with Cons show ?case by simp
qed

lemma columns_refresh_first_row:
  assumes "columns g = []" and "dp_getData ops (dataProvider g) = firstRow # rest"
  shows "columns (refresh ops g) =
    map (\<lambda>key. \<lparr>name = getColumnName key firstRow, heading = key\<rparr>) (map fst firstRow)"
  using assms by (simp add: columns_refresh setColumnsFromData_def pushColumns_map)

lemma refresh_infers_columns:
  "columns (refresh mem_ops (mem_grid [[(''id'', JNum 1), (''name'', JStr ''a'')]] None 1 5)) =
     [\<lparr>name = ''id'', heading = ''id''\<rparr>, \<lparr>name = ''name'', heading = ''name''\<rparr>]"
  by (simp add: columns_refresh mem_ops_def mem_grid_def setColumnsFromData_def
        getColumnName_def getProp_def)

section \<open>Total pages\<close>

text \<open>
  C1, as the code has it. With paging by size off, \<open>getTotalPages\<close> is 1. For a page
  size \<open>n > 0\<close> and a total count \<open>tc \<ge> 0\<close> it is the ceiling of \<open>tc / n\<close>: at least
  1 when \<open>tc > 0\<close>, and 0 (not 1) when \<open>tc = 0\<close>.
\<close>

theorem getTotalPages_ceiling:
  "(pageSize (dataProvider g0) = None \<longrightarrow> getTotalPages ops g0 = 1) \<and>
   (pageSize (dataProvider g) = Some n \<and> 0 < n \<and>
    dp_getTotalCount ops (dataProvider g) = tc \<and> 0 \<le> tc \<longrightarrow>
      getTotalPages ops g = \<lceil>real_of_int tc / real_of_int n\<rceil> \<and>
      (0 < tc \<longrightarrow> 1 \<le> getTotalPages ops g) \<and>
      (tc = 0 \<longrightarrow> getTotalPages ops g = 0))"
proof (intro conjI impI)
  assume "pageSize (dataProvider g0) = None"
  then show "getTotalPages ops g0 = 1" by (simp add: getTotalPages_def)
next
  assume h: "pageSize (dataProvider g) = Some n \<and> 0 < n \<and>
    dp_getTotalCount ops (dataProvider g) = tc \<and> 0 \<le> tc"
  then show v: "getTotalPages ops g = \<lceil>real_of_int tc / real_of_int n\<rceil>"
    by (simp add: getTotalPages_def Math_ceil_def)
  { assume "0 < tc"
    with h have "0 < real_of_int tc / real_of_int n" by simp
    then have "0 < \<lceil>real_of_int tc / real_of_int n\<rceil>" by (simp only: zero_less_ceiling)
    with v show "1 \<le> getTotalPages ops g" by simp }
  { assume "tc = 0"
    with v show "getTotalPages ops g = 0" by simp }
qed

text \<open>
  The theorem at work: 25 rows with paging by size off, 25 rows in pages of 10, and no
  rows in pages of 10.
\<close>

theorem getTotalPages_ceiling_witness:
  "getTotalPages mem_ops (mem_grid (replicate 25 []) None 1 5) = 1 \<and>
   getTotalPages mem_ops (mem_grid (replicate 25 []) (Some 10) 1 5) = 3 \<and>
   getTotalPages mem_ops (mem_grid [] (Some 10) 1 5) = 0"
proof -
  let ?u = "mem_grid (replicate 25 []) None 1 5"
  let ?g = "mem_grid (replicate 25 []) (Some 10) 1 5"
  let ?e = "mem_grid [] (Some 10) 1 5"
  have a: "pageSize (dataProvider ?u) = None" by (simp add: mem_grid_def)
  have b: "pageSize (dataProvider ?g) = Some 10 \<and> (0::int) < 10 \<and>
           dp_getTotalCount mem_ops (dataProvider ?g) = 25 \<and> (0::int) \<le> 25"
    by (simp add: mem_grid_def mem_ops_def)
  have c: "pageSize (dataProvider ?e) = Some 10 \<and> (0::int) < 10 \<and>
           dp_getTotalCount mem_ops (dataProvider ?e) = 0 \<and> (0::int) \<le> 0"
    by (simp add: mem_grid_def mem_ops_def)
  from getTotalPages_ceiling [of ?u mem_ops ?g 10 25] a b
  have "getTotalPages mem_ops ?u = 1"
    "getTotalPages mem_ops ?g = \<lceil>real_of_int 25 / real_of_int 10\<rceil>"
    by blast+
  moreover from getTotalPages_ceiling [of ?u mem_ops ?e 10 0] c
  have "getTotalPages mem_ops ?e = 0" by blast
  ultimately show ?thesis by simp
qed

text \<open>
  C1 as the spec states it asks for at least one page also when there are no rows. A
  grid over no rows with page size 10 has 0 pages.
\<close>

theorem getTotalPages_no_rows_counterexample:
  "pageSize (dataProvider (mem_grid [] (Some 10) 1 5)) = Some 10 \<and>
   dp_getTotalCount mem_ops (dataProvider (mem_grid [] (Some 10) 1 5)) = 0 \<and>
   getTotalPages mem_ops (mem_grid [] (Some 10) 1 5) = 0 \<and>
   \<not> 1 \<le> getTotalPages mem_ops (mem_grid [] (Some 10) 1 5)"
  by (simp add: getTotalPages_div mem_ops_def mem_grid_def)

section \<open>Column inference\<close>

text \<open>
  C2 fails on the code. For the row of the doc comment's example the documented nested
  key is \<^verbatim>\<open>country.name.officialName\<close>; \<open>getNestedKey\<close> returns \<^verbatim>\<open>country\<close>, and the
  column inferred for the key \<^verbatim>\<open>country\<close> is named \<^verbatim>\<open>country.name\<close>: the path stops after
  the second key, because the result of the recursive call is dropped. The heading is the
  top-level key and there is one column for the key.
\<close>

theorem getColumnName_stops_at_second_key:
  "getNestedKey (JObj china_row) = Some ''country'' \<and>
   getNestedKey_spec (JObj china_row) = Some ''country.name.officialName'' \<and>
   getColumnName ''country'' china_row = ''country.name'' \<and>
   columns (setColumnsFromData [china_row] (mem_grid [china_row] None 1 5)) =
     [\<lparr>name = ''country.name'', heading = ''country''\<rparr>]"
  by (simp add: getColumnName_def getProp_def china_row_def concatArg_def
      setColumnsFromData_def mem_grid_def)

section \<open>The window of page buttons\<close>

text \<open>
  C3, as the code has it. Let the current page \<open>p\<close> lie in \<open>[1, tp]\<close>, \<open>tp\<close> the total
  number of pages, and let \<open>ws\<close> be the configured number of page buttons. If
  \<open>1 \<le> ws \<le> tp\<close>, the window is \<open>[s, \<dots>, s + ws - 1]\<close> for some \<open>s\<close>: exactly \<open>ws\<close>
  consecutive integers, all within \<open>[1, tp]\<close>, with \<open>p\<close> among them. If \<open>tp < ws\<close>, the
  window is \<open>[1, \<dots>, tp]\<close>, of length \<open>tp\<close>.
\<close>

theorem paginate_window:
  assumes "getTotalPages ops g = tp" and "pageIndex g = p"
    and "opt_pageButtonCount (options g) = ws" and "1 \<le> p" and "p \<le> tp"
  shows "(1 \<le> ws \<and> ws \<le> tp \<longrightarrow>
           (\<exists>s. pages (paginate ops g) = Some [s..s + ws - 1] \<and>
                length [s..s + ws - 1] = nat ws \<and>
                1 \<le> s \<and> s + ws - 1 \<le> tp \<and> s \<le> p \<and> p \<le> s + ws - 1)) \<and>
         (tp < ws \<longrightarrow> pages (paginate ops g) = Some [1..tp] \<and> length [1..tp] = nat tp)"
proof (intro conjI impI)
  assume ws: "1 \<le> ws \<and> ws \<le> tp"
  then have c: "min ws tp = ws" by simp
  note pg = paginate_pages [OF assms(1,2,3), unfolded c]
  consider (left) "p - ws div 2 < 1"
    | (right) "\<not> p - ws div 2 < 1" "p + ((ws + 1) div 2 - 1) > tp"
    | (mid) "\<not> p - ws div 2 < 1" "\<not> p + ((ws + 1) div 2 - 1) > tp"
    by blast
  then show "\<exists>s. pages (paginate ops g) = Some [s..s + ws - 1] \<and>
                length [s..s + ws - 1] = nat ws \<and>
                1 \<le> s \<and> s + ws - 1 \<le> tp \<and> s \<le> p \<and> p \<le> s + ws - 1"
  proof cases
    case left
    have "pages (paginate ops g) = Some [1..1 + ws - 1]" using pg left by simp
    moreover have "p \<le> 1 + ws - 1" using left ws by linarith
    ultimately show ?thesis using ws assms(4) by (intro exI [of _ 1]) simp
  next
    case right
    have "pages (paginate ops g) = Some [tp - ws + 1..(tp - ws + 1) + ws - 1]"
      using pg right by simp
    moreover have "tp - ws + 1 \<le> p" using right ws by linarith
    ultimately show ?thesis using ws assms(5) by (intro exI [of _ "tp - ws + 1"]) simp
  next
    case mid
    have e: "p + ((ws + 1) div 2 - 1) = (p - ws div 2) + ws - 1" by linarith
    have "pages (paginate ops g) = Some [p - ws div 2..(p - ws div 2) + ws - 1]"
      using pg mid by (simp add: e)
    moreover have "p - ws div 2 \<le> p" "p \<le> (p - ws div 2) + ws - 1" using ws by linarith+
    ultimately show ?thesis using ws mid e by (intro exI [of _ "p - ws div 2"]) simp
  qed
next
  assume lt: "tp < ws"
  then have c: "min ws tp = tp" by simp
  note pg = paginate_pages [OF assms(1,2,3), unfolded c]
  have "p - tp div 2 < 1 \<or> p + ((tp + 1) div 2 - 1) > tp \<or>
        (p - tp div 2 = 1 \<and> p + ((tp + 1) div 2 - 1) = tp)"
    using assms(4,5) by linarith
  then show "pages (paginate ops g) = Some [1..tp]" using pg by auto
  show "length [1..tp] = nat tp" by simp
qed

text \<open>
  The theorem at work: page 5 of 10 with 4 buttons shows pages 3 to 6, and page 3 of 3
  with 5 buttons shows pages 1 to 3.
\<close>

theorem paginate_window_witness:
  "(\<exists>s. pages (paginate mem_ops (mem_grid (replicate 100 []) (Some 10) 5 4)) =
          Some [s..s + 4 - 1] \<and>
        length [s..s + 4 - 1] = nat 4 \<and> 1 \<le> s \<and> s + 4 - 1 \<le> 10 \<and> s \<le> 5 \<and> 5 \<le> s + 4 - 1) \<and>
   pages (paginate mem_ops (mem_grid (replicate 100 []) (Some 10) 5 4)) = Some [3, 4, 5, 6] \<and>
   pages (paginate mem_ops (mem_grid (replicate 25 []) (Some 10) 3 5)) = Some [1, 2, 3]"
proof -
  let ?g = "mem_grid (replicate 100 []) (Some 10) 5 4"
  let ?h = "mem_grid (replicate 25 []) (Some 10) 3 5"
  have g: "getTotalPages mem_ops ?g = 10" "pageIndex ?g = 5"
    "opt_pageButtonCount (options ?g) = 4" "(1::int) \<le> 5" "(5::int) \<le> 10"
    by (simp_all add: getTotalPages_div mem_ops_def mem_grid_def)
  have h: "getTotalPages mem_ops ?h = 3" "pageIndex ?h = 3"
    "opt_pageButtonCount (options ?h) = 5" "(1::int) \<le> 3" "(3::int) \<le> 3"
    by (simp_all add: getTotalPages_div mem_ops_def mem_grid_def)
  from paginate_window [OF g]
  have a: "\<exists>s. pages (paginate mem_ops ?g) = Some [s..s + 4 - 1] \<and>
        length [s..s + 4 - 1] = nat 4 \<and> 1 \<le> s \<and> s + 4 - 1 \<le> 10 \<and> s \<le> 5 \<and> 5 \<le> s + 4 - 1"
    by simp
  have b: "pages (paginate mem_ops ?g) = Some [3, 4, 5, 6]"
    using paginate_pages [OF g(1,2,3)] by (simp add: upto.simps)
  from paginate_window [OF h] have "pages (paginate mem_ops ?h) = Some [1..3]"
    by simp
  then have c: "pages (paginate mem_ops ?h) = Some [1, 2, 3]" by (simp add: upto.simps)
  from a b c show ?thesis by blast
qed

text \<open>
  C3 as the spec states it bounds the window size only from above. With 0 page buttons,
  on page 1 of 1, the window is empty and so does not contain the current page.
\<close>

theorem paginate_window_no_buttons_counterexample:
  "1 \<le> pageIndex (mem_grid (replicate 10 []) (Some 10) 1 0) \<and>
   pageIndex (mem_grid (replicate 10 []) (Some 10) 1 0) \<le>
     getTotalPages mem_ops (mem_grid (replicate 10 []) (Some 10) 1 0) \<and>
   opt_pageButtonCount (options (mem_grid (replicate 10 []) (Some 10) 1 0)) \<le>
     getTotalPages mem_ops (mem_grid (replicate 10 []) (Some 10) 1 0) \<and>
   pages (paginate mem_ops (mem_grid (replicate 10 []) (Some 10) 1 0)) = Some []"
proof -
  let ?g = "mem_grid (replicate 10 []) (Some 10) 1 0"
  have g: "getTotalPages mem_ops ?g = 1" "pageIndex ?g = 1"
    "opt_pageButtonCount (options ?g) = 0"
    by (simp_all add: getTotalPages_div mem_ops_def mem_grid_def)
  show ?thesis using paginate_pages [OF g] g by simp
qed

section \<open>The sort type of a heading click\<close>

text \<open>
  C4. For a column other than the current sort column, \<open>getSortType\<close> is the current
  sort type, unchanged. For the current sort column it is the opposite type: DESC when the
  current type is ASC, ASC when it is DESC.
\<close>

theorem getSortType_toggle:
  "(Some (name column) \<noteq> dp_getSortColumn ops (dataProvider g) \<longrightarrow>
      getSortType ops g column = dp_getSortType ops (dataProvider g)) \<and>
   (Some (name column) = dp_getSortColumn ops (dataProvider g) \<longrightarrow>
      (dp_getSortType ops (dataProvider g) = TYPE_ASC \<longrightarrow>
         getSortType ops g column = TYPE_DESC) \<and>
      (dp_getSortType ops (dataProvider g) = TYPE_DESC \<longrightarrow>
         getSortType ops g column = TYPE_ASC))"
  by (simp add: getSortType_def TYPE_ASC_def TYPE_DESC_def)

text \<open>
  The theorem at work on the column \<^verbatim>\<open>id\<close>: an unsorted grid, a grid sorted by \<^verbatim>\<open>id\<close>
  ascending and a grid sorted by \<^verbatim>\<open>id\<close> descending.
\<close>

theorem getSortType_toggle_witness:
  "getSortType mem_ops (mem_grid [] None 1 5) \<lparr>name = ''id'', heading = ''Id''\<rparr> = ''asc'' \<and>
   getSortType mem_ops (setSort mem_ops ''id'' (Some TYPE_ASC) (mem_grid [] None 1 5))
     \<lparr>name = ''id'', heading = ''Id''\<rparr> = TYPE_DESC \<and>
   getSortType mem_ops (setSort mem_ops ''id'' (Some TYPE_DESC) (mem_grid [] None 1 5))
     \<lparr>name = ''id'', heading = ''Id''\<rparr> = TYPE_ASC"
proof -
  let ?c = "\<lparr>name = ''id'', heading = ''Id''\<rparr>"
  let ?g = "mem_grid [] None 1 5"
  let ?a = "setSort mem_ops ''id'' (Some TYPE_ASC) ?g"
  let ?d = "setSort mem_ops ''id'' (Some TYPE_DESC) ?g"
  have 1: "Some (name ?c) \<noteq> dp_getSortColumn mem_ops (dataProvider ?g)"
    "dp_getSortType mem_ops (dataProvider ?g) = ''asc''"
    by (simp_all add: mem_ops_def mem_grid_def)
  have 2: "Some (name ?c) = dp_getSortColumn mem_ops (dataProvider ?a)"
    "dp_getSortType mem_ops (dataProvider ?a) = TYPE_ASC"
    by (simp_all add: mem_ops_def mem_grid_def setSort_def)
  have 3: "Some (name ?c) = dp_getSortColumn mem_ops (dataProvider ?d)"
    "dp_getSortType mem_ops (dataProvider ?d) = TYPE_DESC"
    by (simp_all add: mem_ops_def mem_grid_def setSort_def)
  show ?thesis
    using getSortType_toggle [of ?c mem_ops ?g] getSortType_toggle [of ?c mem_ops ?a]
      getSortType_toggle [of ?c mem_ops ?d] 1 2 3
    by simp
qed

section \<open>A failed request\<close>

text \<open>
  C5. For a grid with a url whose request fails with \<open>err\<close>, rendering leaves the page
  data as it was, so that \<open>getData\<close> still returns the rows of the previous page; it
  writes \<open>err\<close> to the console; and it has called \<open>fetch\<close> once, with no second
  request. The columns, the page buttons and the page index stay as well.
\<close>

theorem render_fetch_failure:
  assumes "opt_url (options g) \<noteq> None"
    and "dp_fetch ops ((dataProvider g)\<lparr>page := pageIndex g\<rparr>) = (Some err, p)"
  shows "fst (getData (render ops g)) = fst (getData g) \<and>
         console (render ops g) = console g @ [err] \<and>
         requests (render ops g) = Suc (requests g) \<and>
         columns (render ops g) = columns g \<and>
         pages (render ops g) = pages g \<and>
         pageIndex (render ops g) = pageIndex g"
proof -
  from assms(1) obtain u where "opt_url (options g) = Some u" by auto
  with assms(2) show ?thesis by (simp add: render_def Let_def getData_def)
qed

text \<open>
  The theorem at work: a grid showing page 1 is asked for page 2 and the request times
  out.
\<close>

theorem render_fetch_failure_witness:
  "fst (getData (render mem_ops
     \<lparr>options = \<lparr>opt_columns = [], opt_url = Some ''/api/items'', opt_paging = True,
                  opt_pageButtonCount = 5\<rparr>,
      columns = [\<lparr>name = ''id'', heading = ''id''\<rparr>],
      dataProvider = \<lparr>pageSize = Some 1, page = 1,
        internals = \<lparr>mem_rows = [[(''id'', JNum 2)]], mem_sortColumn = None,
                     mem_sortType = ''asc'', mem_filters = [], mem_error = Some ''timeout''\<rparr>\<rparr>,
      data = Some [[(''id'', JNum 1)]], pageIndex = 2, pages = Some [1, 2], console = [],
      requests = 1\<rparr>)) = Some [[(''id'', JNum 1)]] \<and>
   console (render mem_ops
     \<lparr>options = \<lparr>opt_columns = [], opt_url = Some ''/api/items'', opt_paging = True,
                  opt_pageButtonCount = 5\<rparr>,
      columns = [\<lparr>name = ''id'', heading = ''id''\<rparr>],
      dataProvider = \<lparr>pageSize = Some 1, page = 1,
        internals = \<lparr>mem_rows = [[(''id'', JNum 2)]], mem_sortColumn = None,
                     mem_sortType = ''asc'', mem_filters = [], mem_error = Some ''timeout''\<rparr>\<rparr>,
      data = Some [[(''id'', JNum 1)]], pageIndex = 2, pages = Some [1, 2], console = [],
      requests = 1\<rparr>) = [''timeout''] \<and>
   requests (render mem_ops
     \<lparr>options = \<lparr>opt_columns = [], opt_url = Some ''/api/items'', opt_paging = True,
                  opt_pageButtonCount = 5\<rparr>,
      columns = [\<lparr>name = ''id'', heading = ''id''\<rparr>],
      dataProvider = \<lparr>pageSize = Some 1, page = 1,
        internals = \<lparr>mem_rows = [[(''id'', JNum 2)]], mem_sortColumn = None,
                     mem_sortType = ''asc'', mem_filters = [], mem_error = Some ''timeout''\<rparr>\<rparr>,
      data = Some [[(''id'', JNum 1)]], pageIndex = 2, pages = Some [1, 2], console = [],
      requests = 1\<rparr>) = 2"
proof -
  let ?g = "\<lparr>options = \<lparr>opt_columns = [], opt_url = Some ''/api/items'', opt_paging = True,
                  opt_pageButtonCount = 5\<rparr>,
      columns = [\<lparr>name = ''id'', heading = ''id''\<rparr>],
      dataProvider = \<lparr>pageSize = Some 1, page = 1,
        internals = \<lparr>mem_rows = [[(''id'', JNum 2)]], mem_sortColumn = None,
                     mem_sortType = ''asc'', mem_filters = [], mem_error = Some ''timeout''\<rparr>\<rparr>,
      data = Some [[(''id'', JNum 1)]], pageIndex = 2, pages = Some [1, 2], console = [],
      requests = 1\<rparr>"
  have u: "opt_url (options ?g) \<noteq> None" by simp
  have f: "dp_fetch mem_ops ((dataProvider ?g)\<lparr>page := pageIndex ?g\<rparr>) =
            (Some ''timeout'', (dataProvider ?g)\<lparr>page := pageIndex ?g\<rparr>)"
    by (simp add: mem_ops_def)
  from render_fetch_failure [OF u f] show ?thesis by (simp add: getData_def)
qed

section \<open>Page indices out of range\<close>

text \<open>
  C6. \<open>setPageIndex\<close> stores any integer as it is given. Whatever the stored index and
  the number of page buttons, when there is at least one page every page number of the
  window that \<open>paginate\<close> then computes lies within 1 and the total number of pages.
\<close>

theorem setPageIndex_verbatim_window_in_range:
  "pageIndex (setPageIndex i g) = i \<and>
   getPageIndex (setPageIndex i g) = i \<and>
   (1 \<le> getTotalPages ops g \<longrightarrow>
      (\<exists>w. pages (paginate ops (setPageIndex i g)) = Some w \<and>
           (\<forall>x \<in> set w. 1 \<le> x \<and> x \<le> getTotalPages ops g)))"
proof (intro conjI impI)
  show "pageIndex (setPageIndex i g) = i" by (simp add: setPageIndex_def)
next
  show "getPageIndex (setPageIndex i g) = i" by (simp add: setPageIndex_def getPageIndex_def)
next
  assume tp: "1 \<le> getTotalPages ops g"
  let ?tp = "getTotalPages ops g"
  let ?ws = "opt_pageButtonCount (options g)"
  have "pages (paginate ops (setPageIndex i g)) = Some (
      if i - min ?ws ?tp div 2 < 1 then [1..min ?ws ?tp]
      else if i + ((min ?ws ?tp + 1) div 2 - 1) > ?tp then [?tp - min ?ws ?tp + 1..?tp]
      else [i - min ?ws ?tp div 2..i + ((min ?ws ?tp + 1) div 2 - 1)])"
    by (rule paginate_pages)
      (simp_all add: getTotalPages_setPageIndex, simp_all add: setPageIndex_def)
  then show "\<exists>w. pages (paginate ops (setPageIndex i g)) = Some w \<and>
           (\<forall>x \<in> set w. 1 \<le> x \<and> x \<le> ?tp)"
    using tp by auto
qed

text \<open>
  The theorem at work: with 3 pages and 5 buttons, the index 100 is stored and the
  window is pages 1 to 3.
\<close>

theorem setPageIndex_verbatim_window_in_range_witness:
  "pageIndex (setPageIndex 100 (mem_grid (replicate 25 []) (Some 10) 2 5)) = 100 \<and>
   1 \<le> getTotalPages mem_ops (mem_grid (replicate 25 []) (Some 10) 2 5) \<and>
   pages (paginate mem_ops (setPageIndex 100 (mem_grid (replicate 25 []) (Some 10) 2 5))) =
     Some [1, 2, 3] \<and>
   (3::int) \<in> set [1, 2, 3] \<and>
   3 \<le> getTotalPages mem_ops (mem_grid (replicate 25 []) (Some 10) 2 5)"
proof -
  let ?g = "mem_grid (replicate 25 []) (Some 10) 2 5"
  have tp: "getTotalPages mem_ops ?g = 3"
    by (simp add: getTotalPages_div mem_ops_def mem_grid_def)
  have w: "pages (paginate mem_ops (setPageIndex 100 ?g)) = Some [1, 2, 3]"
    using paginate_pages [of mem_ops "setPageIndex 100 ?g" 3 100 5] tp
    by (simp add: getTotalPages_setPageIndex upto.simps)
      (simp add: setPageIndex_def mem_grid_def)
  from setPageIndex_verbatim_window_in_range [of 100 ?g mem_ops] tp w
  have "pageIndex (setPageIndex 100 ?g) = 100"
    and "\<forall>x \<in> set [1, 2, 3]. 1 \<le> x \<and> x \<le> getTotalPages mem_ops ?g"
    by auto
  then have "pageIndex (setPageIndex 100 ?g) = 100" and "3 \<le> getTotalPages mem_ops ?g"
    by simp_all
  with tp w show ?thesis by simp
qed

section \<open>The scenario of 25 rows\<close>

text \<open>
  C7. With a total count of 25 and a page size of 10 there are 3 pages, and on page 2
  with 5 page buttons the window is exactly \<open>[1, 2, 3]\<close>.
\<close>

theorem scenario_25_rows:
  assumes "dp_getTotalCount ops (dataProvider g) = 25"
    and "pageSize (dataProvider g) = Some 10"
    and "pageIndex g = 2"
    and "opt_pageButtonCount (options g) = 5"
  shows "getTotalPages ops g = 3 \<and> pages (paginate ops g) = Some [1, 2, 3]"
proof -
  have tp: "getTotalPages ops g = 3"
    using assms(1,2) by (simp add: getTotalPages_div)
  have "pages (paginate ops g) = Some [1..3]"
    using paginate_pages [OF tp assms(3,4)] by simp
  then show ?thesis using tp by (simp add: upto.simps)
qed

text \<open>The theorem at work on the in-memory provider holding 25 rows.\<close>

theorem scenario_25_rows_witness:
  "getTotalPages mem_ops (mem_grid (replicate 25 []) (Some 10) 2 5) = 3 \<and>
   pages (paginate mem_ops (mem_grid (replicate 25 []) (Some 10) 2 5)) = Some [1, 2, 3]"
proof -
  let ?g = "mem_grid (replicate 25 []) (Some 10) 2 5"
  have "dp_getTotalCount mem_ops (dataProvider ?g) = 25"
    "pageSize (dataProvider ?g) = Some 10" "pageIndex ?g = 2"
    "opt_pageButtonCount (options ?g) = 5"
    by (simp_all add: mem_ops_def mem_grid_def)
  then show ?thesis by (rule scenario_25_rows)
qed

section \<open>The columns stay\<close>

text \<open>
  C8. Once the grid has columns, a refresh, a render and any sequence of calls of its
  public methods leave them as they are. A refresh changes the columns only when there
  are none and the provider's data is not empty; it then infers one column for each key
  of the first row. Columns configured in the options are there after \<open>initColumns\<close>.
\<close>

theorem columns_fixed_once_nonempty:
  "(columns g \<noteq> [] \<longrightarrow>
      columns (refresh ops g) = columns g \<and>
      columns (render ops g) = columns g \<and>
      columns (fold (call ops) cs g) = columns g) \<and>
   (columns (refresh ops h) \<noteq> columns h \<longrightarrow>
      columns h = [] \<and> dp_getData ops (dataProvider h) \<noteq> []) \<and>
   (columns f = [] \<and> dp_getData ops (dataProvider f) = firstRow # rest \<longrightarrow>
      columns (refresh ops f) =
        map (\<lambda>key. \<lparr>name = getColumnName key firstRow, heading = key\<rparr>) (map fst firstRow)) \<and>
   (opt_columns (options k) \<noteq> [] \<longrightarrow> columns (initColumns k) \<noteq> [])"
proof (intro conjI impI)
  assume "columns (refresh ops h) \<noteq> columns h"
  then show "columns h = []" and "dp_getData ops (dataProvider h) \<noteq> []"
    by (auto simp: columns_refresh split: if_splits)
next
  assume "columns f = [] \<and> dp_getData ops (dataProvider f) = firstRow # rest"
  then show "columns (refresh ops f) =
      map (\<lambda>key. \<lparr>name = getColumnName key firstRow, heading = key\<rparr>) (map fst firstRow)"
    by (simp add: columns_refresh_first_row)
qed (simp_all add: columns_refresh_nonempty columns_render_nonempty
      columns_fold_call_nonempty initColumns_def)

text \<open>
  The theorem at work: a grid with the one column \<^verbatim>\<open>name\<close> keeps it through renders,
  page changes, a filter, a page size and a sort; a grid without columns infers them at
  its first refresh; a configured column is there after initialisation.
\<close>

theorem columns_fixed_once_nonempty_witness:
  "columns (fold (call mem_ops)
      [Render, SetPageIndex 2, Render, SetFilter ''name'' ''a'', Render, SetPageSize 1,
       SetSort ''name'' None, Render]
      ((mem_grid [[(''id'', JNum 1), (''name'', JStr ''a'')]] None 1 5)
         \<lparr>columns := [\<lparr>name = ''name'', heading = ''Name''\<rparr>]\<rparr>)) =
     [\<lparr>name = ''name'', heading = ''Name''\<rparr>] \<and>
   columns (mem_grid [[(''id'', JNum 1), (''name'', JStr ''a'')]] None 1 5) = [] \<and>
   columns (refresh mem_ops (mem_grid [[(''id'', JNum 1), (''name'', JStr ''a'')]] None 1 5)) =
     [\<lparr>name = ''id'', heading = ''id''\<rparr>, \<lparr>name = ''name'', heading = ''name''\<rparr>] \<and>
   columns (initColumns ((mem_grid [] None 1 5)
      \<lparr>options := \<lparr>opt_columns = [\<lparr>name = ''name'', heading = ''Name''\<rparr>], opt_url = None,
                    opt_paging = True, opt_pageButtonCount = 5\<rparr>\<rparr>)) =
     [\<lparr>name = ''name'', heading = ''Name''\<rparr>]"
proof -
  let ?h = "mem_grid [[(''id'', JNum 1), (''name'', JStr ''a'')]] None 1 5"
  let ?g = "?h\<lparr>columns := [\<lparr>name = ''name'', heading = ''Name''\<rparr>]\<rparr>"
  let ?k = "(mem_grid [] None 1 5)
      \<lparr>options := \<lparr>opt_columns = [\<lparr>name = ''name'', heading = ''Name''\<rparr>], opt_url = None,
                    opt_paging = True, opt_pageButtonCount = 5\<rparr>\<rparr>"
  let ?cs = "[Render, SetPageIndex 2, Render, SetFilter ''name'' ''a'', Render, SetPageSize 1,
       SetSort ''name'' None, Render]"
  note t = columns_fixed_once_nonempty
    [of ?g mem_ops ?cs ?h ?h "[(''id'', JNum 1), (''name'', JStr ''a'')]" "[]" ?k]
  have g: "columns ?g \<noteq> []" by simp
  have h: "columns (refresh mem_ops ?h) \<noteq> columns ?h"
    by (simp add: refresh_infers_columns) (simp add: mem_grid_def)
  have f: "columns ?h = [] \<and>
           dp_getData mem_ops (dataProvider ?h) = [[(''id'', JNum 1), (''name'', JStr ''a'')]]"
    by (simp add: mem_grid_def mem_ops_def)
  have k: "opt_columns (options ?k) \<noteq> []" by simp
  from t g have "columns (fold (call mem_ops) ?cs ?g) = columns ?g" by blast
  moreover from t h have "columns ?h = []" by blast
  moreover from t f have "columns (refresh mem_ops ?h) =
      map (\<lambda>key. \<lparr>name = getColumnName key [(''id'', JNum 1), (''name'', JStr ''a'')],
                       heading = key\<rparr>)
        (map fst [(''id'', JNum 1), (''name'', JStr ''a'')])"
    by blast
  then have "columns (refresh mem_ops ?h) =
      [\<lparr>name = ''id'', heading = ''id''\<rparr>, \<lparr>name = ''name'', heading = ''name''\<rparr>]"
    by (simp add: getColumnName_def getProp_def)
  moreover from t k have "columns (initColumns ?k) \<noteq> []" by blast
  then have "columns (initColumns ?k) = [\<lparr>name = ''name'', heading = ''Name''\<rparr>]"
    by (simp add: initColumns_def mem_grid_def)
  ultimately show ?thesis by simp
qed

section \<open>The page index under the setters\<close>

text \<open>
  C9. \<open>setFilter\<close> and \<open>setPageSize\<close> set the page index to 1, whatever it was;
  \<open>setSort\<close> and \<open>getData\<close> leave it as it is.
\<close>

theorem setters_page_index:
  "pageIndex (setFilter ops columnName v g) = 1 \<and>
   pageIndex (setPageSize n g) = 1 \<and>
   pageIndex (setSort ops sortColumn sortType g) = pageIndex g \<and>
   pageIndex (snd (getData g)) = pageIndex g"
  by (simp add: setFilter_def setPageSize_def setSort_def getData_def)

section \<open>The selected rows\<close>

text \<open>
  C10. When the grid holds the page data \<open>d\<close>, \<open>getSelectedItems\<close> returns the rows
  of \<open>d\<close> whose \<^verbatim>\<open>selected\<close> property is truthy, in the order they have in \<open>d\<close>, which is
  what \<open>getData\<close> returns; the grid is left as it was; and a row without the property is
  not among the rows returned.
\<close>

theorem getSelectedItems_selected_rows:
  assumes "data g = Some d"
  shows "fst (getData g) = Some d \<and>
         getSelectedItems g = (Inr (filter (\<lambda>r. truthy (getProp r ''selected'')) d), g) \<and>
         (map_of r ''selected'' = None \<longrightarrow>
            r \<notin> set (filter (\<lambda>r. truthy (getProp r ''selected'')) d))"
  using assms
  by (simp add: getData_def getSelectedItems_def selectedLoop_filter getProp_def)

text \<open>
  The theorem at work on four rows: selected, without the property, deselected, and
  selected by a truthy number.
\<close>

theorem getSelectedItems_selected_rows_witness:
  "getSelectedItems
     ((mem_grid [] None 1 5)\<lparr>data :=
        Some [[(''id'', JNum 1), (''selected'', JBool True)],
              [(''id'', JNum 2)],
              [(''id'', JNum 3), (''selected'', JBool False)],
              [(''id'', JNum 4), (''selected'', JNum 1)]]\<rparr>) =
   (Inr [[(''id'', JNum 1), (''selected'', JBool True)],
         [(''id'', JNum 4), (''selected'', JNum 1)]],
    (mem_grid [] None 1 5)\<lparr>data :=
        Some [[(''id'', JNum 1), (''selected'', JBool True)],
              [(''id'', JNum 2)],
              [(''id'', JNum 3), (''selected'', JBool False)],
              [(''id'', JNum 4), (''selected'', JNum 1)]]\<rparr>) \<and>
   map_of [(''id'', JNum 2)] ''selected'' = None \<and>
   [(''id'', JNum 2)] \<notin> set
     [[(''id'', JNum 1), (''selected'', JBool True)],
      [(''id'', JNum 4), (''selected'', JNum 1)]]"
proof -
  let ?d = "[[(''id'', JNum 1), (''selected'', JBool True)],
              [(''id'', JNum 2)],
              [(''id'', JNum 3), (''selected'', JBool False)],
              [(''id'', JNum 4), (''selected'', JNum 1)]]"
  let ?g = "(mem_grid [] None 1 5)\<lparr>data := Some ?d\<rparr>"
  have d: "data ?g = Some ?d" by simp
  have n: "map_of [(''id'', JNum 2)] ''selected'' = None" by simp
  have f: "filter (\<lambda>r. truthy (getProp r ''selected'')) ?d =
     [[(''id'', JNum 1), (''selected'', JBool True)], [(''id'', JNum 4), (''selected'', JNum 1)]]"
    by (simp add: getProp_def)
  show ?thesis
    using getSelectedItems_selected_rows [OF d, of "[(''id'', JNum 2)]"] n
    unfolding f by simp
qed

end
